theory Spec2Isabelle
  imports Main
begin

section \<open>The download example (download-dataframe-xlxs.py)\<close>

text \<open>
  The module builds a Dash application with one button and one download component,
  a module-level data frame \<open>df\<close>, and registers one callback \<open>func\<close> from the
  button's \<open>n_clicks\<close> property to the download component's \<open>data\<close> property:
  \<^verbatim>\<open>
  app = dash.Dash(prevent_initial_callbacks=True)
  app.layout = html.Div([
          html.Button("Download Excel", id="btn_xlxs"),
          dcc.Download(id="download-dataframe-xlxs"),
      ])
  df = pd.DataFrame({"a": [1, 2, 3, 4], "b": [2, 1, 5, 6], "c": ["x", "x", "y", "y"]})

  @app.callback(
      Output("download-dataframe-xlxs", "data"),
      Input("btn_xlxs", "n_clicks"),
      prevent_initial_call=True,
  )
  def func(n_clicks):
      return dcc.send_data_frame(df.to_excel, "mydf.xlxs", sheet_name="Sheet_name_1")
  \<close>
\<close>

subsection \<open>Data\<close>

text \<open>A cell of the frame is a Python int or a Python str.\<close>

datatype cell = Int_cell int | Str_cell string

text \<open>
  The frame is built from a dict of columns; the association list keeps the dict's
  order of the column names.
\<close>

type_synonym dataframe = "(string \<times> cell list) list"

text \<open>
  The components the layout uses: \<open>html.Div(children)\<close>,
  \<open>html.Button(children, id=...)\<close> and \<open>dcc.Download(id=...)\<close>.
\<close>

datatype component =
    Div "component list"
  | Button string string
  | Download string


text \<open>
  The application object: the constructor's \<open>prevent_initial_callbacks\<close> flag and the
  \<open>layout\<close> attribute assigned after construction.
\<close>

record dash_app =
  prevent_initial_callbacks :: bool
  layout :: component

text \<open>The module's globals that hold data: \<open>app\<close> and \<open>df\<close>.\<close>

record module_state =
  app :: dash_app
  df :: dataframe

text \<open>The state after the module's top-level statements have run.\<close>

definition module_init :: module_state where
  "module_init =
     \<lparr> app = \<lparr> prevent_initial_callbacks = True,
               layout = Div [Button ''Download Excel'' ''btn_xlxs'',
                             Download ''download-dataframe-xlxs''] \<rparr>,
       df = [(''a'', [Int_cell 1, Int_cell 2, Int_cell 3, Int_cell 4]),
             (''b'', [Int_cell 2, Int_cell 1, Int_cell 5, Int_cell 6]),
             (''c'', [Str_cell ''x'', Str_cell ''x'', Str_cell ''y'', Str_cell ''y''])] \<rparr>"

subsection \<open>The callback\<close>

text \<open>
  \<open>df.to_excel\<close> is a bound method: the frame it is bound to, read from the global
  \<open>df\<close> when \<open>func\<close> runs.
\<close>

datatype writer = To_excel dataframe

text \<open>
  \<open>dcc.send_data_frame\<close> belongs to the component library, not to this module. It is a
  parameter of the model, with a result type \<open>'r\<close> of its own (whatever the library hands
  to the download component). Its answer depends on the writer, the file name and the
  keyword arguments, and on the environment \<open>'e\<close> in which the call is made: the writer
  produces a workbook, and a workbook carries the time of its creation. The library reads
  the frame through the bound writer and is taken not to modify it, nor any other global
  of the module.
\<close>

type_synonym ('e, 'r) send_data_frame = "'e \<Rightarrow> writer \<Rightarrow> string \<Rightarrow> (string \<times> string) list \<Rightarrow> 'r"

text \<open>
  \<open>func(n_clicks)\<close>, called in the environment \<open>e\<close>: the click count is a Python int, or
  \<open>None\<close> while the button has not been clicked. The body never reads it, assigns to no
  global, and returns what the library returns.
\<close>

definition func :: "('e, 'r) send_data_frame \<Rightarrow> 'e \<Rightarrow> int option \<Rightarrow> module_state \<Rightarrow> 'r \<times> module_state" where
  "func send_data_frame e n_clicks s =
     (send_data_frame e (To_excel (df s)) ''mydf.xlxs'' [(''sheet_name'', ''Sheet_name_1'')], s)"

text \<open>
  Calling \<open>func\<close> once per element of a list, in order, threading the state. An element
  is the environment of the call and the click count passed.
\<close>

fun invocations :: "('e, 'r) send_data_frame \<Rightarrow> ('e \<times> int option) list \<Rightarrow> module_state \<Rightarrow> 'r list \<times> module_state" where
  "invocations send_data_frame [] s = ([], s)"
| "invocations send_data_frame ((e, n) # ns) s =
     (let (r, s') = func send_data_frame e n s;
          (rs, s'') = invocations send_data_frame ns s'
      in (r # rs, s''))"

subsection \<open>Registration\<close>



subsection \<open>Returned values\<close>

text \<open>
  Python values a library can hand back, as far as the statements below need them: a
  workbook's encoded text stands for itself, with the environment it was written in, the
  writer and the keyword arguments.
\<close>

datatype 'e pyvalue =
    Py_none
  | Py_bool bool
  | Py_str string
  | Py_workbook 'e writer "(string \<times> string) list"
  | Py_tuple "'e pyvalue list"
  | Py_dict "(string \<times> 'e pyvalue) list"


section \<open>The documentation page (dash_vtk/index.py)\<close>

text \<open>
  Apart from its imports and \<open>examples = tools.load_examples(__file__)\<close>, the module
  is one assignment: \<open>layout = html.Div([...])\<close>, a list of \<open>rc.Markdown\<close> text
  blocks and of containers showing the loaded examples. The scene components it
  documents (\<open>dash_vtk.View\<close>, \<open>ImageData\<close>, \<open>PolyData\<close>, \<open>DataArray\<close>,
  \<open>SliceRepresentation\<close>, \<open>ShareDataSet\<close>, ...) occur only inside the Markdown
  text: the module neither imports nor calls them, and it defines no function. It
  has no construction, validation or resolution step that could be embedded, so the
  development below is about the download example.
\<close>

section \<open>Properties of the download callback\<close>

lemma func_result:
  "fst (func sdf e n s) = sdf e (To_excel (df s)) ''mydf.xlxs'' [(''sheet_name'', ''Sheet_name_1'')]"
  by (simp add: func_def)

lemma df_module_init:
  "df module_init =
     [(''a'', [Int_cell 1, Int_cell 2, Int_cell 3, Int_cell 4]),
      (''b'', [Int_cell 2, Int_cell 1, Int_cell 5, Int_cell 6]),
      (''c'', [Str_cell ''x'', Str_cell ''x'', Str_cell ''y'', Str_cell ''y''])]"
  by (simp add: module_init_def)

lemma layout_module_init:
  "layout (app module_init) =
     Div [Button ''Download Excel'' ''btn_xlxs'', Download ''download-dataframe-xlxs'']"
  by (simp add: module_init_def)

lemma invocations_eq:
  "invocations sdf ns s =
     (map (\<lambda>(e, n). sdf e (To_excel (df s)) ''mydf.xlxs'' [(''sheet_name'', ''Sheet_name_1'')]) ns, s)"
  by (induction ns) (auto simp: func_def)

subsection \<open>What the callback returns, and how it is registered\<close>



subsection \<open>The click count and the returned value\<close>

text \<open>
  Claim C9, as stated, makes the values returned by any two invocations equal. With a
  library whose workbook carries the time of the call, two invocations with the same
  click count, one at time 0 and one at time 1, return different values.
\<close>

theorem func_values_differ_counterexample:
  "fst (func (\<lambda>e w f k. Py_dict [(''content'', Py_workbook e w k), (''filename'', Py_str f),
                  (''type'', Py_none), (''base64'', Py_bool True)])
          (0::nat) (Some 1) module_init)
   \<noteq> fst (func (\<lambda>e w f k. Py_dict [(''content'', Py_workbook e w k), (''filename'', Py_str f),
                  (''type'', Py_none), (''base64'', Py_bool True)])
            (1::nat) (Some 1) module_init)"
  by (simp add: func_def)

text \<open>
  Claim C9, amended. For any two invocations, with any click counts and in any
  environments, \<open>func\<close> passes equal arguments to \<open>dcc.send_data_frame\<close>; after the module
  has loaded they are the writer bound to the fixed frame of the module (columns
  \<open>a\<close>, \<open>b\<close>, \<open>c\<close>), the file name \<open>mydf.xlxs\<close> and the sheet name \<open>Sheet_name_1\<close>. In one
  environment the returned value is the same for any two click counts, and in a run of
  invocations every returned value is the library's answer to those arguments in the
  environment of that call: it depends on the click count in no way, and on the
  environment as far as the library does.
\<close>

theorem func_arguments_ignore_n_clicks:
  "fst (func (\<lambda>e w f k. (w, f, k)) e1 n1 s) = fst (func (\<lambda>e w f k. (w, f, k)) e2 n2 s)
   \<and> fst (func (\<lambda>e w f k. (w, f, k)) e1 n1 module_init) =
       (To_excel [(''a'', [Int_cell 1, Int_cell 2, Int_cell 3, Int_cell 4]),
                  (''b'', [Int_cell 2, Int_cell 1, Int_cell 5, Int_cell 6]),
                  (''c'', [Str_cell ''x'', Str_cell ''x'', Str_cell ''y'', Str_cell ''y''])],
        ''mydf.xlxs'', [(''sheet_name'', ''Sheet_name_1'')])
   \<and> fst (func sdf e n1 s) = fst (func sdf e n2 s)
   \<and> fst (invocations sdf ns module_init) =
       map (\<lambda>(e, n).
             sdf e (To_excel [(''a'', [Int_cell 1, Int_cell 2, Int_cell 3, Int_cell 4]),
                              (''b'', [Int_cell 2, Int_cell 1, Int_cell 5, Int_cell 6]),
                              (''c'', [Str_cell ''x'', Str_cell ''x'', Str_cell ''y'', Str_cell ''y''])])
               ''mydf.xlxs'' [(''sheet_name'', ''Sheet_name_1'')]) ns"
proof -
  have passed: "fst (func (\<lambda>e w f k. (w, f, k)) e1 n1 s) = fst (func (\<lambda>e w f k. (w, f, k)) e2 n2 s)"
    by (simp only: func_result)
  have fixed: "fst (func (\<lambda>e w f k. (w, f, k)) e1 n1 module_init) =
       (To_excel [(''a'', [Int_cell 1, Int_cell 2, Int_cell 3, Int_cell 4]),
                  (''b'', [Int_cell 2, Int_cell 1, Int_cell 5, Int_cell 6]),
                  (''c'', [Str_cell ''x'', Str_cell ''x'', Str_cell ''y'', Str_cell ''y''])],
        ''mydf.xlxs'', [(''sheet_name'', ''Sheet_name_1'')])"
    by (simp only: func_result df_module_init)
  have same_env: "fst (func sdf e n1 s) = fst (func sdf e n2 s)"
    by (simp only: func_result)
  have "fst (invocations sdf ns module_init) =
          map (\<lambda>(e, n). sdf e (To_excel (df module_init)) ''mydf.xlxs'' [(''sheet_name'', ''Sheet_name_1'')]) ns"
    by (simp add: invocations_eq)
  then have run: "fst (invocations sdf ns module_init) =
       map (\<lambda>(e, n).
             sdf e (To_excel [(''a'', [Int_cell 1, Int_cell 2, Int_cell 3, Int_cell 4]),
                              (''b'', [Int_cell 2, Int_cell 1, Int_cell 5, Int_cell 6]),
                              (''c'', [Str_cell ''x'', Str_cell ''x'', Str_cell ''y'', Str_cell ''y''])])
               ''mydf.xlxs'' [(''sheet_name'', ''Sheet_name_1'')]) ns"
    by (simp only: df_module_init)
  from passed fixed same_env run show ?thesis
    by (simp only: simp_thms)
qed

subsection \<open>The callback changes no global\<close>

text \<open>
  Claim C10. Any number of invocations of \<open>func\<close>, with any click counts, leaves the
  module's state as it was; after the module has loaded, \<open>df\<close> still holds the columns
  \<open>a\<close>, \<open>b\<close>, \<open>c\<close> with their four rows and the layout is still the button and the
  download component.
\<close>

theorem func_preserves_state:
  "snd (invocations sdf ns s) = s
   \<and> df (snd (invocations sdf ns module_init)) =
       [(''a'', [Int_cell 1, Int_cell 2, Int_cell 3, Int_cell 4]),
        (''b'', [Int_cell 2, Int_cell 1, Int_cell 5, Int_cell 6]),
        (''c'', [Str_cell ''x'', Str_cell ''x'', Str_cell ''y'', Str_cell ''y''])]
   \<and> layout (app (snd (invocations sdf ns module_init))) =
       Div [Button ''Download Excel'' ''btn_xlxs'', Download ''download-dataframe-xlxs'']"
proof -
  have same: "snd (invocations sdf ns t) = t" for t
    by (simp add: invocations_eq)
  show ?thesis
    by (simp only: same df_module_init layout_module_init simp_thms)
qed

end
